theory Spec2Isabelle
  imports Main "HOL-Library.Monad_Syntax"
begin

section \<open>RetryExecutor: \<open>retryWithBackoff\<close> (src/utils/retry.js)\<close>

text \<open>
  The options object of \<open>retryWithBackoff\<close>.  A key that the caller leaves out is
  \<open>None\<close> and takes the default of the destructuring pattern.  The key
  \<open>isRetryable\<close> is the one \<open>extractSchema\<close> passes; the destructuring pattern of
  \<open>retryWithBackoff\<close> has no such name, so the field is carried and never read.
  Delays are milliseconds, as integers.
\<close>

record 'e retry_options =
  maxRetries :: "int option"
  initialDelay :: "int option"
  maxDelay :: "int option"
  backoffMultiplier :: "int option"
  shouldRetry :: "('e \<Rightarrow> bool) option"
  isRetryable :: "('e \<Rightarrow> bool) option"

text \<open>
  What one run of \<open>retryWithBackoff\<close> leaves behind: the value returned (\<open>Inr\<close>) or
  thrown (\<open>Inl\<close>; \<open>None\<close> is JavaScript's \<open>undefined\<close>, thrown when the loop body
  never ran), how often the operation was called, and the delays slept, in order.
\<close>

record ('e, 'a) retry_outcome =
  outcome :: "'e option + 'a"
  calls :: nat
  slept :: "int list"

text \<open>
  The operation \<open>fn\<close> is effectful; \<open>fn k\<close> is the result of its \<open>k\<close>-th call
  (counted from 0): \<open>Inl e\<close> when it throws \<open>e\<close>, \<open>Inr v\<close> when it resolves to \<open>v\<close>.
  The \<open>for\<close> loop runs while \<open>attempt \<le> maxRetries\<close>.
\<close>

function retry_loop ::
  "(nat \<Rightarrow> 'e + 'a) \<Rightarrow> int \<Rightarrow> int \<Rightarrow> int \<Rightarrow> ('e \<Rightarrow> bool) \<Rightarrow>
   int \<Rightarrow> int \<Rightarrow> 'e option \<Rightarrow> nat \<Rightarrow> int list \<Rightarrow> ('e, 'a) retry_outcome" where
  "retry_loop fn maxR mult maxD should attempt delay lastError n ds =
     (if attempt \<le> maxR then
        (case fn n of
           Inr v \<Rightarrow> \<lparr>outcome = Inr v, calls = Suc n, slept = ds\<rparr>
         | Inl e \<Rightarrow>
             if \<not> should e then \<lparr>outcome = Inl (Some e), calls = Suc n, slept = ds\<rparr>
             else if attempt \<ge> maxR then \<lparr>outcome = Inl (Some e), calls = Suc n, slept = ds\<rparr>
             else retry_loop fn maxR mult maxD should (attempt + 1)
                    (min (delay * mult) maxD) (Some e) (Suc n) (ds @ [delay]))
      else \<lparr>outcome = Inl lastError, calls = n, slept = ds\<rparr>)"
  by pat_completeness auto
termination
  by (relation "measure (\<lambda>(fn, maxR, mult, maxD, should, attempt, delay, lastError, n, ds).
        nat (maxR + 1 - attempt))") auto

declare retry_loop.simps [simp del]

definition retryWithBackoff ::
  "(nat \<Rightarrow> 'e + 'a) \<Rightarrow> 'e retry_options \<Rightarrow> ('e, 'a) retry_outcome" where
  "retryWithBackoff fn options =
     (let maxR = (case maxRetries options of Some m \<Rightarrow> m | None \<Rightarrow> 3);
          initD = (case initialDelay options of Some d \<Rightarrow> d | None \<Rightarrow> 1000);
          maxD = (case maxDelay options of Some d \<Rightarrow> d | None \<Rightarrow> 30000);
          mult = (case backoffMultiplier options of Some b \<Rightarrow> b | None \<Rightarrow> 2);
          should = (case shouldRetry options of Some p \<Rightarrow> p | None \<Rightarrow> (\<lambda>_. True))
      in retry_loop fn maxR mult maxD should 0 initD None 0 [])"

text \<open>
  The options literal of \<open>extractSchema\<close> (schemaExtraction/index.js), with the classifier
  it passes as a parameter.
\<close>

definition extractSchema_retry_options :: "('e \<Rightarrow> bool) \<Rightarrow> 'e retry_options" where
  "extractSchema_retry_options classifier =
     \<lparr>maxRetries = Some 3, initialDelay = Some 1000, maxDelay = Some 10000,
      backoffMultiplier = None, shouldRetry = None, isRetryable = Some classifier\<rparr>"

section \<open>TextChunker: \<open>chunkText\<close> (src/utils/chunking.js)\<close>

text \<open>
  Text is a list of 8-bit characters.  \<open>isSpace\<close> is the class \<open>\s\<close> of JavaScript
  (which is also what \<open>trim\<close> strips) on that range: tab, line feed, vertical tab,
  form feed, carriage return, space and the no-break space.
\<close>

definition isSpace :: "char \<Rightarrow> bool" where
  "isSpace c \<longleftrightarrow> c = CHR 0x09 \<or> c = CHR 0x0A \<or> c = CHR 0x0B \<or> c = CHR 0x0C \<or>
     c = CHR 0x0D \<or> c = CHR 0x20 \<or> c = CHR 0xA0"

definition trim :: "string \<Rightarrow> string" where
  "trim s = rev (dropWhile isSpace (rev (dropWhile isSpace s)))"

text \<open>
  \<open>text.split(/\s+/)\<close>: the pieces between maximal runs of white space; a run at the
  start or at the end of the text leaves an empty piece there.
\<close>

function split_ws_from :: "string \<Rightarrow> string \<Rightarrow> string list" where
  "split_ws_from cur [] = [cur]"
| "split_ws_from cur (c # cs) =
     (if isSpace c then cur # split_ws_from [] (dropWhile isSpace cs)
      else split_ws_from (cur @ [c]) cs)"
  by pat_completeness auto
termination
  by (relation "measure (\<lambda>(cur, s). length s)")
    (auto simp: le_imp_less_Suc length_dropWhile_le)

definition split_ws :: "string \<Rightarrow> string list" where
  "split_ws s = split_ws_from [] s"

text \<open>\<open>words.join(' ')\<close>.\<close>

fun join_sp :: "string list \<Rightarrow> string" where
  "join_sp [] = []"
| "join_sp [w] = w"
| "join_sp (w # ws) = w @ '' '' @ join_sp ws"

text \<open>
  \<open>Array.prototype.slice(start, end)\<close> on integers: a negative index counts from the
  end of the array, and both indices are clamped to the array.
\<close>

definition js_index :: "nat \<Rightarrow> int \<Rightarrow> nat" where
  "js_index len i = (if i < 0 then nat (max (int len + i) 0) else min (nat i) len)"

definition js_slice :: "'a list \<Rightarrow> int \<Rightarrow> int \<Rightarrow> 'a list" where
  "js_slice xs start end =
     (let k = js_index (length xs) start; e = js_index (length xs) end
      in take (e - k) (drop k xs))"

record chunk =
  chunk_text :: string
  startIndex :: int
  endIndex :: int
  wordCount :: nat
  chunkIndex :: nat

text \<open>
  One window of the \<open>while\<close> loop: the chunk pushed when the window starts at word
  \<open>startIdx\<close>.
\<close>

definition window_chunk :: "string list \<Rightarrow> int \<Rightarrow> int \<Rightarrow> nat \<Rightarrow> chunk" where
  "window_chunk words chunkSizeWords startIdx ci =
     (let endIdx = min (startIdx + chunkSizeWords) (int (length words));
          chunkWords = js_slice words startIdx endIdx;
          chunkTxt = join_sp chunkWords;
          textBeforeChunk = join_sp (js_slice words 0 startIdx);
          textStart = int (length textBeforeChunk) + (if length textBeforeChunk > 0 then 1 else 0);
          textEnd = textStart + int (length chunkTxt)
      in \<lparr>chunk_text = chunkTxt, startIndex = textStart, endIndex = textEnd,
          wordCount = length chunkWords, chunkIndex = ci\<rparr>)"

text \<open>
  The \<open>while\<close> loop.  It may run forever, so it is a partial function: \<open>None\<close> is the
  loop that never hands back its chunks.
\<close>

partial_function (option) chunk_loop ::
  "string list \<Rightarrow> int \<Rightarrow> int \<Rightarrow> int \<Rightarrow> nat \<Rightarrow> chunk list \<Rightarrow> chunk list option" where
  "chunk_loop words chunkSizeWords overlapWords startIdx ci chunks =
     (if startIdx < int (length words) then
        (let chunks' = chunks @ [window_chunk words chunkSizeWords startIdx ci];
             startIdx' = startIdx + (chunkSizeWords - overlapWords)
         in if startIdx' \<ge> int (length words) then Some chunks'
            else chunk_loop words chunkSizeWords overlapWords startIdx' (Suc ci) chunks')
      else Some chunks)"

definition chunkText :: "string \<Rightarrow> int \<Rightarrow> int \<Rightarrow> chunk list option" where
  "chunkText txt chunkSizeWords overlapWords =
     (if length (trim txt) = 0 then Some []
      else let words = split_ws txt in
        if int (length words) \<le> chunkSizeWords then
          Some [\<lparr>chunk_text = txt, startIndex = 0, endIndex = int (length txt),
                 wordCount = length words, chunkIndex = 0\<rparr>]
        else chunk_loop words chunkSizeWords overlapWords 0 0 [])"


section \<open>IngestionEngine (src/services/neo4jIngest/index.js)\<close>

subsection \<open>Splitting and partitioning statements\<close>

text \<open>
  The scan of \<open>splitCypherStatements\<close>: \<open>prev\<close> is the character before the current
  one, \<open>q\<close> is \<open>Some c\<close> inside a literal opened by the quote \<open>c\<close>.  A semicolon outside a
  literal ends the current statement, which is kept, trimmed, when it is not blank.
\<close>

definition isQuote :: "char \<Rightarrow> bool" where
  "isQuote c \<longleftrightarrow> c = CHR 0x22 \<or> c = CHR 0x27 \<or> c = CHR 0x60"

fun split_scan :: "char option \<Rightarrow> char option \<Rightarrow> string \<Rightarrow> string \<Rightarrow> string list" where
  "split_scan prev q cur [] = (if length (trim cur) > 0 then [trim cur] else [])"
| "split_scan prev q cur (c # cs) =
     (let q' = (if isQuote c \<and> prev \<noteq> Some (CHR 0x5C)
                then (case q of None \<Rightarrow> Some c
                      | Some d \<Rightarrow> if c = d then None else Some d)
                else q)
      in if c = CHR '';'' \<and> q' = None
         then (if length (trim cur) > 0 then [trim cur] else []) @ split_scan (Some c) q' [] cs
         else split_scan (Some c) q' (cur @ [c]) cs)"

definition splitCypherStatements :: "string \<Rightarrow> string list" where
  "splitCypherStatements cypher =
     (if length (trim cypher) = 0 then []
      else filter (\<lambda>st. length st > 0) (split_scan None None [] cypher))"

definition startsWith :: "string \<Rightarrow> string \<Rightarrow> bool" where
  "startsWith s p \<longleftrightarrow> take (length p) s = p"

text \<open>
  \<open>toUpperCase\<close> is used in two places: before \<open>startsWith\<close> on a keyword of ASCII
  letters and a space, and on the first character of a property name that a pattern has
  matched with \<open>\w\<close>.  In both only the ASCII letters matter: no other 8-bit character
  has an upper case that occurs in one of the keywords.
\<close>

definition upperChar :: "char \<Rightarrow> char" where
  "upperChar c = (let n = (of_char c :: nat) in if 97 \<le> n \<and> n \<le> 122 then char_of (n - 32) else c)"

definition isSchemaModification :: "string \<Rightarrow> bool" where
  "isSchemaModification statement =
     (let upperStatement = map upperChar (trim statement)
      in startsWith upperStatement ''CREATE CONSTRAINT'' \<or>
         startsWith upperStatement ''CREATE INDEX'' \<or>
         startsWith upperStatement ''DROP CONSTRAINT'' \<or>
         startsWith upperStatement ''DROP INDEX'')"

text \<open>
  \<open>separateSchemaAndWriteStatements\<close>: a statement whose trimmed text is empty or begins
  with \<open>--\<close> or \<open>/*\<close> goes to neither list.
\<close>

fun separateSchemaAndWriteStatements :: "string list \<Rightarrow> string list \<times> string list" where
  "separateSchemaAndWriteStatements [] = ([], [])"
| "separateSchemaAndWriteStatements (statement # rest) =
     (let (schemaStatements, writeStatements) = separateSchemaAndWriteStatements rest;
          trimmed = trim statement
      in if length trimmed = 0 \<or> startsWith trimmed ''--'' \<or> startsWith trimmed ''/*''
         then (schemaStatements, writeStatements)
         else if isSchemaModification statement
         then (statement # schemaStatements, writeStatements)
         else (schemaStatements, statement # writeStatements))"

subsection \<open>The stores and the graph driver\<close>

text \<open>
  The graph store and its driver are outside the repository.  \<open>graph_env\<close> fixes how they
  answer: \<open>explain\<close> and \<open>runSchema\<close> give the message of the error they throw, if any;
  \<open>txRun\<close> gives the error message or the counters \<open>(nodesCreated, relationshipsCreated)\<close>
  of the statement's summary; \<open>txCommit\<close> is the error of the commit, if any.
\<close>

record graph_env =
  explain :: "string \<Rightarrow> string option"
  runSchema :: "string \<Rightarrow> string option"
  txRun :: "string \<Rightarrow> string + nat \<times> nat"
  txCommit :: "string option"

datatype result_status = Generated | Validated | Executed | ResultError
datatype chunk_status = Pending | Ingesting | Ingested | ChunkError

record cypher_result =
  generatedCypher :: string
  r_status :: result_status
  r_error :: "string option"
  r_nodesCreated :: nat
  r_relationshipsCreated :: nat

record chunk_doc =
  c_status :: chunk_status
  c_error :: "string option"

text \<open>
  The state one ingestion works on: the result and chunk records of the persistent store
  (\<open>None\<close> when \<open>findOne\<close>/\<open>findById\<close> finds nothing), the write statements the graph holds
  for good (\<open>graph\<close>: those of committed transactions), the schema statements that ran,
  and the statements handed to \<open>tx.run\<close>, in order.
\<close>

record store =
  result :: "cypher_result option"
  chunk :: "chunk_doc option"
  graph :: "string list"
  schemaDone :: "string list"
  txAttempted :: "string list"

text \<open>\<open>validateCypher\<close>: \<open>None\<close> is \<open>{valid: true}\<close>, \<open>Some msg\<close> is \<open>{valid: false, error: msg}\<close>.\<close>

fun explain_all :: "graph_env \<Rightarrow> string list \<Rightarrow> string option" where
  "explain_all env [] = None"
| "explain_all env (st # sts) =
     (case explain env (''EXPLAIN '' @ st) of Some msg \<Rightarrow> Some msg | None \<Rightarrow> explain_all env sts)"

definition validateCypher :: "graph_env \<Rightarrow> string \<Rightarrow> string option" where
  "validateCypher env cypher =
     (if length (trim cypher) = 0 then Some ''Empty Cypher''
      else explain_all env (splitCypherStatements cypher))"

text \<open>
  The schema statements run one by one in a session of their own; an error of one of them
  is logged or ignored and the next one runs.
\<close>

fun run_schema_statements :: "graph_env \<Rightarrow> string list \<Rightarrow> string list" where
  "run_schema_statements env [] = []"
| "run_schema_statements env (st # sts) =
     (case runSchema env st of None \<Rightarrow> st # run_schema_statements env sts
      | Some msg \<Rightarrow> run_schema_statements env sts)"

text \<open>
  The open transaction: the statements that ran in it, the statements handed to it, and
  the two counters.  The \<open>for\<close> loop over the write statements leaves at the first error
  (\<open>break\<close>) with \<open>lastError\<close>.
\<close>

record tx_state =
  pending :: "string list"
  attempted :: "string list"
  nodesCreated :: nat
  relationshipsCreated :: nat

fun tx_loop :: "graph_env \<Rightarrow> string list \<Rightarrow> tx_state \<Rightarrow> string option \<times> tx_state" where
  "tx_loop env [] tx = (None, tx)"
| "tx_loop env (st # sts) tx =
     (case txRun env st of
        Inl msg \<Rightarrow> (Some msg, tx\<lparr>attempted := attempted tx @ [st]\<rparr>)
      | Inr (n, r) \<Rightarrow>
          tx_loop env sts (tx\<lparr>pending := pending tx @ [st], attempted := attempted tx @ [st],
            nodesCreated := nodesCreated tx + n,
            relationshipsCreated := relationshipsCreated tx + r\<rparr>))"

text \<open>
  The \<open>catch\<close> block of \<open>ingestChunkCypher\<close>: roll back the transaction if one is open
  (its pending statements are dropped, the graph keeps what it had), write the error on
  the result and on the chunk, throw the error again.
\<close>

definition ingest_failed :: "string \<Rightarrow> cypher_result \<Rightarrow> chunk_doc \<Rightarrow> store \<Rightarrow> (string + nat \<times> nat) \<times> store" where
  "ingest_failed msg r c s =
     (Inl msg, s\<lparr>result := Some (r\<lparr>r_status := ResultError, r_error := Some msg\<rparr>),
                 chunk := Some (c\<lparr>c_status := ChunkError, c_error := Some msg\<rparr>)\<rparr>)"

definition ingestChunkCypher :: "graph_env \<Rightarrow> store \<Rightarrow> (string + nat \<times> nat) \<times> store" where
  "ingestChunkCypher env s =
     (case result s of
        None \<Rightarrow> (Inl ''Cypher result not found for chunk'', s)
      | Some r0 \<Rightarrow>
        if r_status r0 = Executed then (Inr (r_nodesCreated r0, r_relationshipsCreated r0), s)
        else (case chunk s of
          None \<Rightarrow> (Inl ''Chunk not found'', s)
        | Some c0 \<Rightarrow>
          (case validateCypher env (generatedCypher r0) of
             Some msg \<Rightarrow> (Inl (''Cypher validation failed: '' @ msg), s)
           | None \<Rightarrow>
             let c = c0\<lparr>c_status := Ingesting\<rparr>;
                 r = r0\<lparr>r_status := Validated\<rparr>;
                 s1 = s\<lparr>result := Some r, chunk := Some c\<rparr>;
                 statements = splitCypherStatements (generatedCypher r)
             in if length statements = 0
                then ingest_failed ''No valid Cypher statements found'' r c s1
                else
                  let (schemaStatements, writeStatements) =
                        separateSchemaAndWriteStatements statements;
                      s2 = s1\<lparr>schemaDone := schemaDone s1 @ run_schema_statements env schemaStatements\<rparr>
                  in if length writeStatements = 0 then (Inr (0, 0), s2)
                     else
                       let (lastError, tx) = tx_loop env writeStatements
                              \<lparr>pending = [], attempted = [], nodesCreated = 0,
                               relationshipsCreated = 0\<rparr>;
                           s3 = s2\<lparr>txAttempted := txAttempted s2 @ attempted tx\<rparr>
                       in (case lastError of
                             Some msg \<Rightarrow> ingest_failed msg r c s3
                           | None \<Rightarrow>
                             (case txCommit env of
                                Some msg \<Rightarrow> ingest_failed msg r c s3
                              | None \<Rightarrow>
                                (Inr (nodesCreated tx, relationshipsCreated tx),
                                 s3\<lparr>graph := graph s3 @ pending tx,
                                    result := Some (r\<lparr>r_status := Executed,
                                      r_nodesCreated := nodesCreated tx,
                                      r_relationshipsCreated := relationshipsCreated tx\<rparr>),
                                    chunk := Some (c\<lparr>c_status := Ingested\<rparr>)\<rparr>))))))"


section \<open>StatementCorrector: \<open>formatStructuredCypher\<close> (utils/formatCypher.js, second part of src/utils/chunking.js)\<close>

subsection \<open>Strings\<close>

definition isWord :: "char \<Rightarrow> bool" where
  "isWord c \<longleftrightarrow> (let n = (of_char c :: nat) in
     (48 \<le> n \<and> n \<le> 57) \<or> (65 \<le> n \<and> n \<le> 90) \<or> n = 95 \<or> (97 \<le> n \<and> n \<le> 122))"

definition lowerChar :: "char \<Rightarrow> char" where
  "lowerChar c = (let n = (of_char c :: nat) in
     if (65 \<le> n \<and> n \<le> 90) \<or> (192 \<le> n \<and> n \<le> 222 \<and> n \<noteq> 215) then char_of (n + 32) else c)"

definition canonChar :: "char \<Rightarrow> char" where
  "canonChar c = (let n = (of_char c :: nat) in
     if (97 \<le> n \<and> n \<le> 122) \<or> (224 \<le> n \<and> n \<le> 254 \<and> n \<noteq> 247) then char_of (n - 32) else c)"

definition toLowerCase :: "string \<Rightarrow> string" where
  "toLowerCase s = map lowerChar s"

fun includes_str :: "string \<Rightarrow> string \<Rightarrow> bool" where
  "includes_str [] sub = (sub = [])"
| "includes_str (c # cs) sub = (startsWith (c # cs) sub \<or> includes_str cs sub)"

function replaceAll :: "string \<Rightarrow> string \<Rightarrow> string \<Rightarrow> string" where
  "replaceAll p r [] = []"
| "replaceAll p r (c # cs) =
     (if p \<noteq> [] \<and> startsWith (c # cs) p then r @ replaceAll p r (drop (length p) (c # cs))
      else c # replaceAll p r cs)"
  by pat_completeness auto
termination
  by (relation "measure (\<lambda>(p, r, s). length s)") (auto simp: neq_Nil_conv)

definition digitChar :: "nat \<Rightarrow> char" where
  "digitChar d = char_of (48 + d)"

fun showNat :: "nat \<Rightarrow> string" where
  "showNat n = (if n < 10 then [digitChar n] else showNat (n div 10) @ [digitChar (n mod 10)])"

declare showNat.simps [simp del]

definition padding :: "nat \<Rightarrow> string \<Rightarrow> string" where
  "padding w v = replicate (w - length v) CHR '' ''"

definition fixHtmlEntities :: "string \<Rightarrow> string" where
  "fixHtmlEntities s =
     replaceAll ''&lt;'' ''<'' (replaceAll ''&gt;'' ''>''
       (replaceAll ''-&lt;'' ''<-'' (replaceAll ''-&gt;'' ''->'' s)))"

subsection \<open>Patterns\<close>

datatype rx =
    Lit char
  | Word
  | Space
  | OneOf string
  | NoneOf string
  | Eps
  | Seq rx rx
  | Alt rx rx
  | Star rx
  | Group nat rx
  | Eol

type_synonym caps = "(nat \<times> string) list"

text \<open>
  One way a pattern matches at the head of a text: the characters consumed, the rest of the
  text, and the captures so far.  \<open>rx_match\<close> lists all ways in the order in which a
  backtracking matcher tries them (greedy repetition, alternatives left to right), so the
  head of the list is the match that JavaScript reports.  One round of a repetition that
  consumes nothing is dropped.
\<close>

type_synonym mres = "string \<times> string \<times> caps"

definition after :: "string \<Rightarrow> mres list \<Rightarrow> mres list" where
  "after k rs = map (\<lambda>(k2, s2, c2). (k @ k2, s2, c2)) rs"

fun star_iter ::
  "(string \<Rightarrow> caps \<Rightarrow> mres list) \<Rightarrow> nat \<Rightarrow> string \<Rightarrow> caps \<Rightarrow> mres list" where
  "star_iter m 0 s c = [([], s, c)]"
| "star_iter m (Suc n) s c =
     concat (map (\<lambda>(k, s', c'). if length s' < length s then after k (star_iter m n s' c') else [])
       (m s c)) @ [([], s, c)]"

definition one_char :: "(char \<Rightarrow> bool) \<Rightarrow> string \<Rightarrow> caps \<Rightarrow> mres list" where
  "one_char P s c = (case s of [] \<Rightarrow> [] | y # t \<Rightarrow> if P y then [([y], t, c)] else [])"

primrec rx_match :: "rx \<Rightarrow> bool \<Rightarrow> string \<Rightarrow> caps \<Rightarrow> mres list" where
  "rx_match (Lit x) = (\<lambda>ci. one_char (\<lambda>y. if ci then canonChar x = canonChar y else x = y))"
| "rx_match Word = (\<lambda>ci. one_char isWord)"
| "rx_match Space = (\<lambda>ci. one_char isSpace)"
| "rx_match (OneOf xs) = (\<lambda>ci. one_char (\<lambda>y. y \<in> set xs))"
| "rx_match (NoneOf xs) = (\<lambda>ci. one_char (\<lambda>y. y \<notin> set xs))"
| "rx_match Eps = (\<lambda>ci s c. [([], s, c)])"
| "rx_match (Seq a b) = (\<lambda>ci s c.
      concat (map (\<lambda>(k, s', c'). after k (rx_match b ci s' c')) (rx_match a ci s c)))"
| "rx_match (Alt a b) = (\<lambda>ci s c. rx_match a ci s c @ rx_match b ci s c)"
| "rx_match (Star a) = (\<lambda>ci s c. star_iter (rx_match a ci) (length s) s c)"
| "rx_match (Group n a) = (\<lambda>ci s c. map (\<lambda>(k, s', c'). (k, s', (n, k) # c')) (rx_match a ci s c))"
| "rx_match Eol = (\<lambda>ci s c. if s = [] then [([], s, c)] else [])"

fun seqs :: "rx list \<Rightarrow> rx" where
  "seqs [] = Eps"
| "seqs [r] = r"
| "seqs (r # rs) = Seq r (seqs rs)"

definition lits :: "string \<Rightarrow> rx" where
  "lits s = seqs (map Lit s)"

definition Plus :: "rx \<Rightarrow> rx" where
  "Plus a = Seq a (Star a)"

definition grp :: "caps \<Rightarrow> nat \<Rightarrow> string" where
  "grp c n = (case map_of c n of Some x \<Rightarrow> x | None \<Rightarrow> [])"

function rx_exec_all :: "rx \<Rightarrow> bool \<Rightarrow> string \<Rightarrow> caps list" where
  "rx_exec_all r ci s =
     (case rx_match r ci s [] of
        (k, rest, c) # _ \<Rightarrow> if length rest < length s then c # rx_exec_all r ci rest else [c]
      | [] \<Rightarrow> (case s of [] \<Rightarrow> [] | _ # t \<Rightarrow> rx_exec_all r ci t))"
  by pat_completeness auto
termination
  by (relation "measure (\<lambda>(r, ci, s). length s)") auto

declare rx_exec_all.simps [simp del]

fun rx_first :: "rx \<Rightarrow> bool \<Rightarrow> string \<Rightarrow> caps option" where
  "rx_first r ci s =
     (case rx_match r ci s [] of
        (k, rest, c) # _ \<Rightarrow> Some c
      | [] \<Rightarrow> (case s of [] \<Rightarrow> None | _ # t \<Rightarrow> rx_first r ci t))"

declare rx_first.simps [simp del]

definition rx_test_anchored :: "rx \<Rightarrow> bool \<Rightarrow> string \<Rightarrow> bool" where
  "rx_test_anchored r ci s \<longleftrightarrow> rx_match r ci s [] \<noteq> []"

definition quoteChars :: string where
  "quoteChars = [CHR 0x22, CHR 0x27]"

definition idAlternatives :: rx where
  "idAlternatives = Alt (Seq (Plus Word) (lits ''Id'')) (Alt (lits ''id'') (Alt (lits ''_id'') (lits ''uuid'')))"

definition nodePattern :: rx where
  "nodePattern = seqs [lits ''MERGE'', Star Space, Lit CHR ''('', Group 1 (Plus Word), Lit CHR '':'',
     Group 2 (Plus Word), Star Space, Lit CHR ''{'', Group 3 (Plus (NoneOf ''}'')), lits ''})'']"

definition idPattern :: rx where
  "idPattern = seqs [Group 1 idAlternatives, Lit CHR '':'', Star Space, OneOf quoteChars,
     Group 2 (Plus (NoneOf quoteChars)), OneOf quoteChars]"

definition relPattern :: rx where
  "relPattern = seqs [lits ''MERGE'', Star Space, Lit CHR ''('', Group 1 (Plus (NoneOf '')'')),
     lits '')-[:'', Group 2 (Plus (NoneOf '']'')), Lit CHR '']'', Alt (lits ''-&gt;'') (lits ''->''),
     Lit CHR ''('', Group 3 (Plus (NoneOf '')'')), Lit CHR '')'']"

definition inlineNodePattern :: rx where
  "inlineNodePattern = seqs [Lit CHR ''{'', Group 1 idAlternatives, Lit CHR '':'', Star Space,
     OneOf quoteChars, Group 2 (Plus (NoneOf quoteChars)), OneOf quoteChars, Lit CHR ''}'']"

definition trueIdPattern :: "string \<Rightarrow> rx" where
  "trueIdPattern labelLower =
     Alt (seqs [lits labelLower, lits ''id'', Eol]) (seqs [lits labelLower, lits ''_id'', Eol])"

definition genericIdPattern :: rx where
  "genericIdPattern = Seq (Group 1 (Alt (lits ''id'') (Alt (lits ''_id'') (lits ''uuid'')))) Eol"

subsection \<open>Parsing\<close>

record node =
  originalVar :: string
  label :: string
  props :: string
  idProp :: string
  idValue :: string
  key :: string

record relationship =
  rel_from :: string
  rel_type :: string
  rel_to :: string

definition node_of_match :: "caps \<Rightarrow> node list" where
  "node_of_match m =
     (let varName = grp m 1; lbl = grp m 2; prps = grp m 3
      in case rx_first idPattern True prps of
           Some idMatch \<Rightarrow>
             [\<lparr>originalVar = varName, label = lbl, props = prps, idProp = grp idMatch 1,
               idValue = grp idMatch 2, key = lbl @ '':'' @ grp idMatch 2\<rparr>]
         | None \<Rightarrow> [])"

definition relationship_of_match :: "caps \<Rightarrow> relationship" where
  "relationship_of_match m =
     \<lparr>rel_from = trim (grp m 1),
      rel_type = replaceAll ''&lt;'' ''<'' (replaceAll ''&gt;'' ''>'' (replaceAll ''-&gt;'' ''->'' (grp m 2))),
      rel_to = trim (grp m 3)\<rparr>"

definition parseCypher :: "string \<Rightarrow> node list \<times> relationship list" where
  "parseCypher cypher =
     (concat (map node_of_match (rx_exec_all nodePattern False cypher)),
      map relationship_of_match (rx_exec_all relPattern False cypher))"



text \<open>The distinct elements of a list, each at its first occurrence (insertion order of a \<open>Map\<close> or \<open>Set\<close>).\<close>

fun firstOccurrences :: "'a list \<Rightarrow> 'a list" where
  "firstOccurrences [] = []"
| "firstOccurrences (x # xs) = x # firstOccurrences (filter (\<lambda>y. y \<noteq> x) xs)"

subsection \<open>Constraints\<close>

text \<open>
  The schema: \<open>None\<close> is a schema without a usable \<open>nodes\<close> object; otherwise the entries
  of \<open>schema.nodes\<close> in the order of \<open>Object.entries\<close>, each with its string properties
  (a value that is no array counts as the empty list: both are skipped).
\<close>

type_synonym schema = "(string \<times> string list) list option"

record constraint =
  con_label :: string
  con_property :: string
  con_varName :: string

definition constraintVarName :: "string \<Rightarrow> string" where
  "constraintVarName lbl =
     (if lbl = ''Accounting'' then ''acc2''
      else if lbl = ''Address'' then ''addr''
      else if lbl = ''Reference'' then ''ref''
      else if lbl = ''Investment'' then ''inv''
      else if lbl = ''Position'' then ''pos''
      else if lbl = ''Holding'' then ''h''
      else if lbl = ''Risk'' then ''r''
      else if lbl = ''Security'' then ''s''
      else if lbl = ''Trade'' then ''t''
      else if lbl = ''Account'' then ''a''
      else if lbl = ''Party'' then ''p''
      else take 1 (toLowerCase lbl))"

definition normalizeProp :: "string \<Rightarrow> string" where
  "normalizeProp p = toLowerCase (take 1 p) @ drop 1 p"

definition constraintsHeader :: string where
  "constraintsHeader = ''/* --- 1) Add uniqueness constraints (run once) --- */\<newline>\<newline>''"

definition renderConstraint :: "constraint \<Rightarrow> string" where
  "renderConstraint c =
     ''CREATE CONSTRAINT IF NOT EXISTS FOR ('' @ con_varName c @ '':'' @ con_label c @ '')'' @
     padding 30 (con_varName c) @ ''REQUIRE '' @ con_varName c @ ''.'' @ con_property c @
     '' IS UNIQUE;\<newline>''"

definition labelConstraints :: "string \<times> string list \<Rightarrow> constraint list" where
  "labelConstraints entry =
     (let lbl = fst entry; prps = snd entry;
          labelLower = toLowerCase lbl;
          trueIdProps = filter (\<lambda>p. rx_test_anchored (trueIdPattern labelLower) True (toLowerCase p)) prps;
          idProps = (if length trueIdProps > 0 then trueIdProps
                     else filter (\<lambda>p. rx_test_anchored genericIdPattern False (toLowerCase p)) prps)
      in map (\<lambda>p. \<lparr>con_label = lbl, con_property = normalizeProp p,
                    con_varName = constraintVarName lbl\<rparr>) idProps)"

definition generateConstraints :: "schema \<Rightarrow> string" where
  "generateConstraints schema =
     (case schema of
        None \<Rightarrow> constraintsHeader @ ''-- No constraints: Invalid schema structure\<newline>\<newline>''
      | Some entries \<Rightarrow>
          let constraints = concat (map labelConstraints entries)
          in if length constraints = 0
             then constraintsHeader @ ''-- No constraints generated from schema.\<newline>'' @
                  ''-- Constraints will be inferred from generated Cypher nodes.\<newline>\<newline>''
             else constraintsHeader @ concat (map renderConstraint constraints))"

text \<open>
  \<open>generateConstraintsFromNodes\<close>: the labels in the order of their first node, each
  with the \<open>idProp\<close> of its first node.
\<close>

definition nodeLabelConstraint :: "node list \<Rightarrow> string \<Rightarrow> constraint list" where
  "nodeLabelConstraint nodes lbl =
     (case filter (\<lambda>n. idProp n \<noteq> []) (filter (\<lambda>n. label n = lbl) nodes) of
        [] \<Rightarrow> []
      | n # _ \<Rightarrow>
          let p = idProp n; labelLower = toLowerCase lbl
          in if rx_test_anchored (trueIdPattern labelLower) True (toLowerCase p) \<or>
                rx_test_anchored genericIdPattern True p
             then [\<lparr>con_label = lbl, con_property = normalizeProp p,
                    con_varName = constraintVarName lbl\<rparr>]
             else [])"

definition generateConstraintsFromNodes :: "node list \<Rightarrow> string" where
  "generateConstraintsFromNodes nodes =
     (let constraints = concat (map (nodeLabelConstraint nodes) (firstOccurrences (map label nodes)))
      in if length constraints = 0
         then constraintsHeader @ ''-- No constraints generated (no ID properties found in nodes).\<newline>'' @
              ''-- You may need to manually add constraints based on your data model.\<newline>\<newline>''
         else constraintsHeader @ concat (map renderConstraint constraints))"



subsection \<open>Variables\<close>

definition varPrefix :: "string \<Rightarrow> string" where
  "varPrefix lbl =
     (if lbl = ''Accounting'' then ''acc2''
      else if lbl = ''Address'' then ''addr''
      else if lbl = ''Reference'' then ''ref''
      else if lbl = ''Investment'' then ''inv''
      else if lbl = ''Position'' then ''pos''
      else if lbl = ''Holding'' then ''h''
      else if lbl = ''Risk'' then ''r''
      else if lbl = ''Security'' then ''s''
      else if lbl = ''Trade'' then ''t''
      else if lbl = ''Account'' then ''account''
      else if lbl = ''Party'' then ''party''
      else take 1 (toLowerCase lbl))"

text \<open>
  \<open>generateSequentialVariables\<close>: one \<open>Map\<close> from strings to the new names, set at the
  node's original variable and at its key; the counter runs over all nodes.
\<close>

fun assignVariables :: "nat \<Rightarrow> node list \<Rightarrow> (string \<rightharpoonup> string) \<Rightarrow> (string \<rightharpoonup> string)" where
  "assignVariables counter [] varMap = varMap"
| "assignVariables counter (n # ns) varMap =
     (let newVarName = varPrefix (label n) @ showNat counter
      in assignVariables (counter + 1) ns
           (varMap(originalVar n \<mapsto> newVarName, key n \<mapsto> newVarName)))"

definition generateSequentialVariables :: "node list \<Rightarrow> (string \<rightharpoonup> string)" where
  "generateSequentialVariables nodes = assignVariables 1 nodes Map.empty"

text \<open>\<open>a || b\<close> on a \<open>Map\<close> lookup: \<open>b\<close> when the key is absent or the value is the empty string.\<close>

definition orElse :: "string option \<Rightarrow> string \<Rightarrow> string" where
  "orElse v d = (case v of Some x \<Rightarrow> if x = [] then d else x | None \<Rightarrow> d)"

text \<open>A \<open>Map\<close> lookup spliced into a template string.\<close>

definition getVar :: "(string \<rightharpoonup> string) \<Rightarrow> string \<Rightarrow> string" where
  "getVar varMap k = (case varMap k of Some x \<Rightarrow> x | None \<Rightarrow> ''undefined'')"

subsection \<open>The nodes section\<close>

fun renderNodes ::
  "(string \<rightharpoonup> string) \<Rightarrow> node list \<Rightarrow> string \<Rightarrow> nat \<Rightarrow> string list \<Rightarrow> string \<times> nat" where
  "renderNodes varMap [] section nodeCounter seen = (section, nodeCounter)"
| \<open>renderNodes varMap (n # ns) section nodeCounter seen =
     (let newVarName = orElse (varMap (originalVar n))
            (take 1 (toLowerCase (label n)) @ showNat nodeCounter)
      in if key n \<notin> set seen
         then renderNodes varMap ns
                (section @ ''MERGE ('' @ newVarName @ '':'' @ label n @ padding 20 newVarName @
                   ''{'' @ idProp n @ '': "'' @ idValue n @ ''"})\<newline>'')
                (nodeCounter + 1) (key n # seen)
         else renderNodes varMap ns section nodeCounter seen)\<close>

subsection \<open>The relationships section\<close>

record rel_state =
  relationshipsSection :: string
  relationshipSet :: "string list"
  investmentSecurityLinks :: "string list"
  tradeAccountLinks :: "string list"
  tradeSecurityLinks :: "string list"
  nodeCounter :: nat

fun nodeLookup :: "node list \<Rightarrow> (string \<rightharpoonup> node) \<Rightarrow> (string \<rightharpoonup> node)" where
  "nodeLookup [] m = m"
| "nodeLookup (n # ns) m = nodeLookup ns (m(originalVar n \<mapsto> n, key n \<mapsto> n))"

fun labelLookup :: "(string \<rightharpoonup> string) \<Rightarrow> node list \<Rightarrow> (string \<rightharpoonup> string) \<Rightarrow> (string \<rightharpoonup> string)" where
  "labelLookup varMap [] m = m"
| "labelLookup varMap (n # ns) m =
     (case varMap (originalVar n) of
        Some mappedVar \<Rightarrow>
          if mappedVar \<noteq> [] then labelLookup varMap ns (m(mappedVar \<mapsto> label n))
          else labelLookup varMap ns m
      | None \<Rightarrow> labelLookup varMap ns m)"

definition resolveVar ::
  "node list \<Rightarrow> (string \<rightharpoonup> string) \<Rightarrow> (string \<rightharpoonup> node) \<Rightarrow> string \<Rightarrow> string" where
  "resolveVar nodes varMap varToNodeMap v =
     (case varToNodeMap v of
        Some n \<Rightarrow> orElse (varMap (originalVar n)) v
      | None \<Rightarrow>
          (case filter (\<lambda>n. originalVar n = v \<or> includes_str v (originalVar n)) nodes of
             [] \<Rightarrow> v
           | n # _ \<Rightarrow> orElse (varMap (originalVar n)) v))"

definition relKey :: "string \<Rightarrow> string \<Rightarrow> string \<Rightarrow> string" where
  "relKey f t e = f @ ''-[:'' @ t @ '']->'' @ e"

definition renderRel :: "string \<Rightarrow> string \<Rightarrow> string \<Rightarrow> string" where
  "renderRel f t e = ''MERGE ('' @ f @ '')-[:'' @ t @ '']->('' @ e @ '');\<newline>\<newline>''"

definition stripIdSuffix :: "string \<Rightarrow> string" where
  "stripIdSuffix s =
     (if length s \<ge> 2 \<and> drop (length s - 2) s = ''Id'' then take (length s - 2) s else s)"

definition relStep ::
  "node list \<Rightarrow> (string \<rightharpoonup> string) \<Rightarrow> relationship \<Rightarrow> rel_state \<Rightarrow> rel_state" where
  \<open>relStep nodes varMap rel st =
     (let varToNodeMap = nodeLookup nodes Map.empty;
          fromVar = resolveVar nodes varMap varToNodeMap (trim (rel_from rel));
          toVar = resolveVar nodes varMap varToNodeMap (trim (rel_to rel));
          varToLabelMap = labelLookup varMap nodes Map.empty;
          fromNodeLabel = varToLabelMap fromVar;
          toNodeLabel = varToLabelMap toVar;
          ty = rel_type rel;
          swap1 = (ty = ''HAS_ACCOUNT'' \<and> fromNodeLabel = Some ''Account'' \<and> toNodeLabel = Some ''Party'');
          swap2 = (ty = ''EXECUTED_TRADE'' \<and> fromNodeLabel = Some ''Trade'' \<and> toNodeLabel = Some ''Account'');
          held = (ty = ''HELD_IN_POSITION'' \<or> ty = ''HELD_IN_HOLDING'');
          swap3 = (held \<and> fromNodeLabel = Some ''Security'');
          rename3 = (held \<and> (fromNodeLabel = Some ''Security'' \<or> toNodeLabel = Some ''Security''));
          finalFromVar = (if swap1 \<or> swap2 \<or> swap3 then toVar else fromVar);
          finalToVar = (if swap1 \<or> swap2 \<or> swap3 then fromVar else toVar);
          finalRelType = (if ty = ''MADE_INVESTMENT'' then ''HAS_INVESTMENT''
                          else if rename3 then ''IN_SECURITY'' else ty);
          st1 = (if ty = ''IN_SECURITY'' \<and> fromNodeLabel = Some ''Investment'' \<and> toNodeLabel = Some ''Security''
                 then st\<lparr>investmentSecurityLinks := fromVar # investmentSecurityLinks st\<rparr> else st);
          st2 = (if ty = ''EXECUTED_TRADE'' \<and> fromNodeLabel = Some ''Account'' \<and> toNodeLabel = Some ''Trade''
                 then st1\<lparr>tradeAccountLinks := finalToVar # tradeAccountLinks st1\<rparr> else st1);
          st3 = (if ty = ''ON_SECURITY'' \<and> fromNodeLabel = Some ''Trade'' \<and> toNodeLabel = Some ''Security''
                 then st2\<lparr>tradeSecurityLinks := finalFromVar # tradeSecurityLinks st2\<rparr> else st2);
          k = relKey finalFromVar finalRelType finalToVar
      in if k \<in> set (relationshipSet st3) then st3
         else
           let st4 = st3\<lparr>relationshipSet := k # relationshipSet st3\<rparr>
           in case rx_first inlineNodePattern True finalToVar of
                Some inlineMatch \<Rightarrow>
                  let p = grp inlineMatch 1; v = grp inlineMatch 2;
                      inferredLabel = map upperChar (take 1 p) @ stripIdSuffix (drop 1 p);
                      newVarName = take 1 (toLowerCase inferredLabel) @ showNat (nodeCounter st4)
                  in st4\<lparr>relationshipsSection := relationshipsSection st4 @
                            ''MERGE ('' @ newVarName @ '':'' @ inferredLabel @ '' {'' @ p @ '': "'' @ v @ ''"})\<newline>'' @
                            ''MERGE ('' @ finalFromVar @ '')-[:'' @ finalRelType @ '']->('' @ newVarName @ '');\<newline>\<newline>'',
                          nodeCounter := nodeCounter st4 + 1\<rparr>
              | None \<Rightarrow>
                  st4\<lparr>relationshipsSection := relationshipsSection st4 @
                          renderRel finalFromVar finalRelType finalToVar\<rparr>)\<close>

text \<open>The completion passes: a link is added when its key is not yet in the set.\<close>

definition addLink :: "string \<Rightarrow> string \<Rightarrow> string \<Rightarrow> rel_state \<Rightarrow> rel_state" where
  "addLink f t e st =
     (if relKey f t e \<in> set (relationshipSet st) then st
      else st\<lparr>relationshipsSection := relationshipsSection st @ renderRel f t e,
              relationshipSet := relKey f t e # relationshipSet st\<rparr>)"

definition investmentStep ::
  "(string \<rightharpoonup> string) \<Rightarrow> node list \<Rightarrow> node \<Rightarrow> rel_state \<Rightarrow> rel_state" where
  "investmentStep varMap securityNodes invNode st =
     (let invVar = getVar varMap (originalVar invNode)
      in if invVar \<notin> set (investmentSecurityLinks st)
         then addLink invVar ''IN_SECURITY'' (getVar varMap (originalVar (hd securityNodes))) st
         else st)"

definition tradeStep ::
  "(string \<rightharpoonup> string) \<Rightarrow> node list \<Rightarrow> node list \<Rightarrow> node \<Rightarrow> rel_state \<Rightarrow> rel_state" where
  "tradeStep varMap accountNodes securityNodes tradeNode st =
     (let tradeVar = getVar varMap (originalVar tradeNode);
          st1 = (if length accountNodes > 0 \<and> tradeVar \<notin> set (tradeAccountLinks st)
                 then addLink (getVar varMap (originalVar (hd accountNodes))) ''EXECUTED_TRADE'' tradeVar st
                 else st)
      in if length securityNodes > 0 \<and> tradeVar \<notin> set (tradeSecurityLinks st1)
         then addLink tradeVar ''ON_SECURITY'' (getVar varMap (originalVar (hd securityNodes))) st1
         else st1)"

subsection \<open>\<open>formatStructuredCypher\<close>\<close>

definition formatStructuredCypher :: "string \<Rightarrow> schema \<Rightarrow> string" where
  "formatStructuredCypher rawCypher schema =
     (let cleanedCypher = fixHtmlEntities rawCypher;
          (nodes, relationships) = parseCypher cleanedCypher
      in if length nodes = 0 then rawCypher
         else
           let fromSchema = generateConstraints schema;
               constraintsSection =
                 (if includes_str fromSchema ''No constraints generated''
                  then generateConstraintsFromNodes nodes else fromSchema);
               varMap = generateSequentialVariables nodes;
               (nodesBody, nodeCounter1) = renderNodes varMap nodes
                  ''\<newline>/* --- 2) Create nodes with unique variable names --- */\<newline>\<newline>'' 1 [];
               nodesSection = nodesBody @ '';\<newline>\<newline>'';
               investmentNodes = filter (\<lambda>n. label n = ''Investment'') nodes;
               securityNodes = filter (\<lambda>n. label n = ''Security'') nodes;
               tradeNodes = filter (\<lambda>n. label n = ''Trade'') nodes;
               accountNodes = filter (\<lambda>n. label n = ''Account'') nodes;
               st0 = \<lparr>relationshipsSection =
                        ''/* --- 3) Now MERGE relationships (use variables from above) --- */\<newline>\<newline>'',
                      relationshipSet = [], investmentSecurityLinks = [], tradeAccountLinks = [],
                      tradeSecurityLinks = [], nodeCounter = nodeCounter1\<rparr>;
               st1 = foldl (\<lambda>st rel. relStep nodes varMap rel st) st0 relationships;
               st2 = (if length investmentNodes > 0 \<and> length securityNodes > 0
                      then foldl (\<lambda>st n. investmentStep varMap securityNodes n st) st1 investmentNodes
                      else st1);
               st3 = foldl (\<lambda>st n. tradeStep varMap accountNodes securityNodes n st) st2 tradeNodes
           in fixHtmlEntities (constraintsSection @ nodesSection @ relationshipsSection st3))"

section \<open>Properties of the RetryExecutor\<close>

lemma retry_loop_all_fail:
  assumes "\<And>i. i \<le> n + k \<Longrightarrow> \<exists>e. fn i = Inl e \<and> should e"
    and "maxR = attempt + int k"
  shows "\<exists>e. fn (n + k) = Inl e \<and>
     outcome (retry_loop fn maxR mult maxD should attempt delay lastError n ds) = Inl (Some e) \<and>
     calls (retry_loop fn maxR mult maxD should attempt delay lastError n ds) = Suc (n + k)"
  using assms
proof (induction k arbitrary: attempt delay lastError n ds)
  case 0
  from "0.prems"(1)[of n] obtain e where e: "fn n = Inl e" "should e" by auto
  with "0.prems"(2) show ?case
    by (subst (1 2) retry_loop.simps) simp
next
  case (Suc k)
  from Suc.prems(1)[of n] obtain e where e: "fn n = Inl e" "should e" by auto
  have step: "retry_loop fn maxR mult maxD should attempt delay lastError n ds =
      retry_loop fn maxR mult maxD should (attempt + 1) (min (delay * mult) maxD) (Some e)
        (Suc n) (ds @ [delay])"
    using e Suc.prems(2) by (subst retry_loop.simps) simp
  have "\<exists>e'. fn (Suc n + k) = Inl e' \<and>
     outcome (retry_loop fn maxR mult maxD should (attempt + 1) (min (delay * mult) maxD)
        (Some e) (Suc n) (ds @ [delay])) = Inl (Some e') \<and>
     calls (retry_loop fn maxR mult maxD should (attempt + 1) (min (delay * mult) maxD)
        (Some e) (Suc n) (ds @ [delay])) = Suc (Suc n + k)"
    by (rule Suc.IH) (use Suc.prems in auto)
  then show ?case unfolding step by simp
qed

lemma retryWithBackoff_exhausts_budget:
  assumes "\<And>i. i \<le> n \<Longrightarrow> \<exists>e. fn i = Inl e \<and> should e"
  shows "\<exists>e. fn n = Inl e \<and>
     outcome (retryWithBackoff fn \<lparr>maxRetries = Some (int n), initialDelay = d0,
        maxDelay = dmax, backoffMultiplier = b, shouldRetry = Some should,
        isRetryable = r\<rparr>) = Inl (Some e) \<and>
     calls (retryWithBackoff fn \<lparr>maxRetries = Some (int n), initialDelay = d0,
        maxDelay = dmax, backoffMultiplier = b, shouldRetry = Some should,
        isRetryable = r\<rparr>) = n + 1"
  using retry_loop_all_fail[of 0 n fn should "int n" 0] assms
  by (simp add: retryWithBackoff_def)

text \<open>
  C5.  The code counts attempts as \<open>maxRetries + 1\<close> (its log lines say
  \<open>attempts: attempt + 1\<close>), so a budget of three attempts is \<open>maxRetries = 2\<close>.  With that
  budget and an operation that fails on each of its calls with an error the classifier
  accepts, the operation is called exactly three times and the error of the third call
  is thrown, whatever the delays are.
\<close>

theorem retryWithBackoff_three_attempts:
  assumes "\<And>i. i \<le> 2 \<Longrightarrow> \<exists>e. fn i = Inl e \<and> should e"
  shows "\<exists>e. fn 2 = Inl e \<and>
     outcome (retryWithBackoff fn \<lparr>maxRetries = Some 2, initialDelay = d0,
        maxDelay = dmax, backoffMultiplier = b, shouldRetry = Some should,
        isRetryable = r\<rparr>) = Inl (Some e) \<and>
     calls (retryWithBackoff fn \<lparr>maxRetries = Some 2, initialDelay = d0,
        maxDelay = dmax, backoffMultiplier = b, shouldRetry = Some should,
        isRetryable = r\<rparr>) = 3"
  using retryWithBackoff_exhausts_budget[of 2 fn should d0 dmax b r] assms
  by simp

theorem retryWithBackoff_three_attempts_witness:
  "calls (retryWithBackoff (\<lambda>i. Inl (''timeout'', i) :: (string \<times> nat) + unit)
      \<lparr>maxRetries = Some 2, initialDelay = None, maxDelay = None, backoffMultiplier = None,
       shouldRetry = Some (\<lambda>_. True), isRetryable = None\<rparr>) = 3
   \<and> outcome (retryWithBackoff (\<lambda>i. Inl (''timeout'', i) :: (string \<times> nat) + unit)
      \<lparr>maxRetries = Some 2, initialDelay = None, maxDelay = None, backoffMultiplier = None,
       shouldRetry = Some (\<lambda>_. True), isRetryable = None\<rparr>) = Inl (Some (''timeout'', 2))"
  using retryWithBackoff_three_attempts[of
      "\<lambda>i. Inl (''timeout'', i) :: (string \<times> nat) + unit" "\<lambda>_. True" None None None None]
  by simp

text \<open>
  C10.  Whatever classifier \<open>extractSchema\<close> supplies, it is passed under the key
  \<open>isRetryable\<close> and not consulted: an extraction that fails on each of its four calls is
  called four times, also when the classifier rejects every one of the errors, and the
  last error is thrown.
\<close>

theorem extractSchema_classifier_ignored:
  assumes "\<And>i. i \<le> 3 \<Longrightarrow> fn i = Inl (err i)"
  shows "calls (retryWithBackoff fn (extractSchema_retry_options classifier)) = 4 \<and>
     outcome (retryWithBackoff fn (extractSchema_retry_options classifier)) = Inl (Some (err 3))"
  using assms
  by (simp add: retryWithBackoff_def extractSchema_retry_options_def retry_loop.simps
      numeral_3_eq_3)

theorem extractSchema_classifier_ignored_witness:
  "calls (retryWithBackoff (\<lambda>i. Inl ''invalid syntax'' :: string + unit)
      (extractSchema_retry_options (\<lambda>_. False))) = 4 \<and>
   outcome (retryWithBackoff (\<lambda>i. Inl ''invalid syntax'' :: string + unit)
      (extractSchema_retry_options (\<lambda>_. False))) = Inl (Some ''invalid syntax'')"
  using extractSchema_classifier_ignored[of "\<lambda>i. Inl ''invalid syntax'' :: string + unit"
      "\<lambda>_. ''invalid syntax''" "\<lambda>_. False"]
  by simp

section \<open>Properties of the TextChunker\<close>

lemma chunk_loop_terminates:
  assumes "overlapWords < chunkSizeWords"
  shows "\<exists>r. chunk_loop words chunkSizeWords overlapWords startIdx ci chunks = Some r"
  using assms
proof (induction "nat (int (length words) - startIdx)" arbitrary: startIdx ci chunks
    rule: less_induct)
  case less
  show ?case
  proof (cases "startIdx < int (length words)")
    case False
    then show ?thesis by (subst chunk_loop.simps) simp
  next
    case True
    let ?s = "startIdx + (chunkSizeWords - overlapWords)"
    show ?thesis
    proof (cases "?s \<ge> int (length words)")
      case True
      with \<open>startIdx < int (length words)\<close> show ?thesis
        by (subst chunk_loop.simps) (simp add: Let_def)
    next
      case False
      have "nat (int (length words) - ?s) < nat (int (length words) - startIdx)"
        using less.prems True by linarith
      from less.hyps[OF this less.prems]
      obtain r where "chunk_loop words chunkSizeWords overlapWords ?s (Suc ci)
          (chunks @ [window_chunk words chunkSizeWords startIdx ci]) = Some r"
        by blast
      with True False show ?thesis
        by (subst chunk_loop.simps) (simp add: Let_def)
    qed
  qed
qed

lemma chunk_loop_stuck_aux:
  assumes "chunk_loop words chunkSizeWords overlapWords startIdx ci chunks = Some r"
  shows "\<not> (chunkSizeWords \<le> overlapWords \<and> startIdx < int (length words))"
  using assms
proof (induction rule: chunk_loop.raw_induct[rotated 1, consumes 1, case_names step])
  case (step loop words chunkSizeWords overlapWords startIdx ci chunks r)
  show ?case
  proof
    assume st: "chunkSizeWords \<le> overlapWords \<and> startIdx < int (length words)"
    let ?s = "startIdx + (chunkSizeWords - overlapWords)"
    from st have lt: "?s < int (length words)" by linarith
    with st step(2) have "loop words chunkSizeWords overlapWords ?s (Suc ci)
        (chunks @ [window_chunk words chunkSizeWords startIdx ci]) = Some r"
      by (simp add: Let_def)
    from step(1)[OF this] st lt show False by simp
  qed
qed

lemma chunk_loop_never_returns:
  assumes "chunkSizeWords \<le> overlapWords" and "startIdx < int (length words)"
  shows "chunk_loop words chunkSizeWords overlapWords startIdx ci chunks = None"
proof (cases "chunk_loop words chunkSizeWords overlapWords startIdx ci chunks")
  case (Some r)
  from chunk_loop_stuck_aux[OF this] assms show ?thesis by simp
qed simp

text \<open>
  C4.  The step \<open>chunkSizeWords - overlapWords\<close> is added as it is, with no clamp.  On the
  three-word text \<open>a b c\<close> with a window of two words and an overlap of two words the
  window start stays at 0 and \<open>chunkText\<close> never returns.
\<close>

theorem chunkText_overlap_eq_window_diverges:
  "chunkText ''a b c'' 2 2 = None"
proof -
  have w: "split_ws ''a b c'' = [''a'', ''b'', ''c'']"
    by (simp add: split_ws_def isSpace_def)
  have t: "trim ''a b c'' = ''a b c''"
    by (simp add: trim_def isSpace_def)
  show ?thesis
    unfolding chunkText_def t w
    by (simp add: chunk_loop_never_returns)
qed

section \<open>Properties of the IngestionEngine\<close>

lemma tx_loop_first_failure:
  assumes "\<forall>w \<in> set pre. \<exists>cnt. txRun env w = Inr cnt" and "txRun env bad = Inl msg"
  shows "fst (tx_loop env (pre @ bad # post) tx) = Some msg \<and>
     attempted (snd (tx_loop env (pre @ bad # post) tx)) = attempted tx @ pre @ [bad]"
  using assms
proof (induction pre arbitrary: tx)
  case Nil
  then show ?case by simp
next
  case (Cons w pre)
  then obtain n r where "txRun env w = Inr (n, r)" by fastforce
  with Cons show ?case by simp
qed

text \<open>
  C2.  Take a chunk whose result is not yet executed and whose program passes validation,
  and let \<open>bad\<close> be the first write statement that fails, with message \<open>msg\<close>.  Then
  \<open>ingestChunkCypher\<close> hands the transaction exactly the statements up to \<open>bad\<close> and none
  after it, leaves the graph as it was, writes status error and \<open>msg\<close> on the result
  and on the chunk, and throws \<open>msg\<close>.
\<close>

theorem ingestChunkCypher_first_failure_rolls_back:
  assumes res: "result s = Some r" and nex: "r_status r \<noteq> Executed"
    and chk: "chunk s = Some c"
    and valid: "validateCypher env (generatedCypher r) = None"
    and parts: "separateSchemaAndWriteStatements (splitCypherStatements (generatedCypher r))
                  = (schemaStatements, pre @ bad # post)"
    and ok: "\<forall>w \<in> set pre. \<exists>cnt. txRun env w = Inr cnt"
    and bad: "txRun env bad = Inl msg"
  shows "fst (ingestChunkCypher env s) = Inl msg \<and>
     graph (snd (ingestChunkCypher env s)) = graph s \<and>
     txAttempted (snd (ingestChunkCypher env s)) = txAttempted s @ pre @ [bad] \<and>
     map_option r_status (result (snd (ingestChunkCypher env s))) = Some ResultError \<and>
     map_option r_error (result (snd (ingestChunkCypher env s))) = Some (Some msg) \<and>
     map_option c_status (chunk (snd (ingestChunkCypher env s))) = Some ChunkError \<and>
     map_option c_error (chunk (snd (ingestChunkCypher env s))) = Some (Some msg)"
proof -
  have ne: "splitCypherStatements (generatedCypher r) \<noteq> []"
    using parts by auto
  obtain e tx where loop: "tx_loop env (pre @ bad # post)
      \<lparr>pending = [], attempted = [], nodesCreated = 0, relationshipsCreated = 0\<rparr> = (e, tx)"
    by (cases "tx_loop env (pre @ bad # post)
      \<lparr>pending = [], attempted = [], nodesCreated = 0, relationshipsCreated = 0\<rparr>")
  from tx_loop_first_failure[OF ok bad, of post
      "\<lparr>pending = [], attempted = [], nodesCreated = 0, relationshipsCreated = 0\<rparr>"] loop
  have e: "e = Some msg" and att: "attempted tx = pre @ [bad]" by simp_all
  show ?thesis
    using res nex chk valid parts ne loop e att
    by (simp add: ingestChunkCypher_def ingest_failed_def Let_def)
qed

definition demo_env :: graph_env where
  "demo_env = \<lparr>explain = (\<lambda>_. None), runSchema = (\<lambda>_. None),
     txRun = (\<lambda>st. if st = ''MERGE (b)'' then Inl ''boom'' else Inr (1, 0)),
     txCommit = None\<rparr>"

definition demo_store :: store where
  "demo_store = \<lparr>result = Some \<lparr>generatedCypher = ''MERGE (a);MERGE (b);MERGE (c)'',
       r_status = Generated, r_error = None, r_nodesCreated = 0, r_relationshipsCreated = 0\<rparr>,
     chunk = Some \<lparr>c_status = Pending, c_error = None\<rparr>,
     graph = [''MERGE (old)''], schemaDone = [], txAttempted = []\<rparr>"

lemma demo_split:
  "splitCypherStatements ''MERGE (a);MERGE (b);MERGE (c)'' =
     [''MERGE (a)'', ''MERGE (b)'', ''MERGE (c)'']"
  by (simp add: splitCypherStatements_def trim_def isSpace_def isQuote_def)

lemma demo_separate:
  "separateSchemaAndWriteStatements [''MERGE (a)'', ''MERGE (b)'', ''MERGE (c)''] =
     ([], [''MERGE (a)'', ''MERGE (b)'', ''MERGE (c)''])"
  by (simp add: trim_def isSpace_def startsWith_def isSchemaModification_def upperChar_def)

theorem ingestChunkCypher_first_failure_rolls_back_witness:
  "fst (ingestChunkCypher demo_env demo_store) = Inl ''boom'' \<and>
   graph (snd (ingestChunkCypher demo_env demo_store)) = [''MERGE (old)''] \<and>
   txAttempted (snd (ingestChunkCypher demo_env demo_store)) = [''MERGE (a)'', ''MERGE (b)''] \<and>
   map_option r_status (result (snd (ingestChunkCypher demo_env demo_store))) = Some ResultError \<and>
   map_option r_error (result (snd (ingestChunkCypher demo_env demo_store))) = Some (Some ''boom'') \<and>
   map_option c_status (chunk (snd (ingestChunkCypher demo_env demo_store))) = Some ChunkError \<and>
   map_option c_error (chunk (snd (ingestChunkCypher demo_env demo_store))) = Some (Some ''boom'')"
proof -
  let ?r = "\<lparr>generatedCypher = ''MERGE (a);MERGE (b);MERGE (c)'',
       r_status = Generated, r_error = None, r_nodesCreated = 0, r_relationshipsCreated = 0\<rparr>"
  let ?c = "\<lparr>c_status = Pending, c_error = None\<rparr>"
  have 1: "result demo_store = Some ?r" by (simp add: demo_store_def)
  have 2: "r_status ?r \<noteq> Executed" by simp
  have 3: "chunk demo_store = Some ?c" by (simp add: demo_store_def)
  have 4: "validateCypher demo_env (generatedCypher ?r) = None"
    by (simp add: validateCypher_def demo_split demo_env_def) (simp add: trim_def isSpace_def)
  have 5: "separateSchemaAndWriteStatements (splitCypherStatements (generatedCypher ?r))
      = ([], [''MERGE (a)''] @ ''MERGE (b)'' # [''MERGE (c)''])"
    by (simp only: cypher_result.select_convs demo_split demo_separate append_Cons append_Nil)
  have 6: "\<forall>w \<in> set [''MERGE (a)'']. \<exists>cnt. txRun demo_env w = Inr cnt"
    by (simp add: demo_env_def)
  have 7: "txRun demo_env ''MERGE (b)'' = Inl ''boom''" by (simp add: demo_env_def)
  from ingestChunkCypher_first_failure_rolls_back[OF 1 2 3 4 5 6 7]
  show ?thesis by (simp add: demo_store_def)
qed

end
